theory Spec2Isabelle
  imports
    Complex_Main
    "HOL-Library.Char_ord"
    "HOL-Library.List_Lexorder"
    "HOL-Library.Sublist"
    "HOL-Library.AList"
begin

section \<open>The JavaScript platform, as far as the code uses it\<close>

text \<open>
  Modelling boundaries, fixed once for the whole development.
  \<^item> A JavaScript string is a \<^typ>\<open>string\<close> (a list of 8-bit characters). Case mapping
    and white space are the ASCII ones.
  \<^item> A JavaScript number is an exact rational (\<^typ>\<open>rat\<close>); \<open>NaN\<close>, where the code
    tests for it, is \<open>None\<close> of \<^typ>\<open>rat option\<close>. Binary rounding, infinities and the
    exponent notation of very large numbers are outside the model.
  \<^item> A \<open>Date\<close> is its time value, an \<^typ>\<open>int\<close> of milliseconds since the epoch;
    an invalid date is \<open>None\<close>. The host time zone is UTC, so that the local calendar
    fields are the UTC ones.
  \<^item> A plain object used as a dictionary is an association list in insertion order;
    keys are assumed not to collide with the properties every object inherits
    (\<open>constructor\<close>, \<open>toString\<close>, ...).
\<close>

subsection \<open>Strings\<close>

definition toLowerChar :: "char \<Rightarrow> char" where
  "toLowerChar c =
     (if CHR ''A'' \<le> c \<and> c \<le> CHR ''Z'' then char_of (of_char c + (32::nat)) else c)"

definition toUpperChar :: "char \<Rightarrow> char" where
  "toUpperChar c =
     (if CHR ''a'' \<le> c \<and> c \<le> CHR ''z'' then char_of (of_char c - (32::nat)) else c)"

definition toLowerCase :: "string \<Rightarrow> string" where
  "toLowerCase s = map toLowerChar s"

text \<open>\<open>text.includes(keyword)\<close>: the keyword occurs as a contiguous substring.\<close>

fun str_includes :: "string \<Rightarrow> string \<Rightarrow> bool" where
  "str_includes [] keyword = (keyword = [])"
| "str_includes (c # cs) keyword = (prefix keyword (c # cs) \<or> str_includes cs keyword)"

subsection \<open>Numbers\<close>

text \<open>\<open>Math.round\<close>: the nearest integer, a tie going up.\<close>

definition Math_round :: "rat \<Rightarrow> int" where
  "Math_round x = \<lfloor>x + 1 / 2\<rfloor>"

text \<open>The decimal numeral of an integer, as a template literal prints it.\<close>

definition digitChar :: "int \<Rightarrow> char" where
  "digitChar n = char_of (48 + n)"

function showNat :: "int \<Rightarrow> string" where
  "showNat n = (if n < 10 then [digitChar n] else showNat (n div 10) @ [digitChar (n mod 10)])"
  by pat_completeness auto
termination
  by (relation "measure nat") auto

definition showInt :: "int \<Rightarrow> string" where
  "showInt i = (if i < 0 then CHR ''-'' # showNat (- i) else showNat i)"

text \<open>\<open>xs.join(sep)\<close>.\<close>

fun join :: "string \<Rightarrow> string list \<Rightarrow> string" where
  "join sep [] = []"
| "join sep [x] = x"
| "join sep (x # y # ys) = x @ sep @ join sep (y # ys)"

subsection \<open>Dates\<close>

text \<open>
  The proleptic Gregorian calendar on day numbers (days since 1970-01-01), counted in
  cycles of 400, 100, 4 and 1 years that start on 1 March. Months are 1 to 12 here;
  \<open>getMonth\<close> subtracts one.
\<close>

definition msPerDay :: int where
  "msPerDay = 1000 * 60 * 60 * 24"

definition civilFromDays :: "int \<Rightarrow> int \<times> int \<times> int" where
  "civilFromDays z =
     (let z' = z + 719468;
          n400 = z' div 146097; r400 = z' mod 146097;
          n100 = min 3 (r400 div 36524); r100 = r400 - n100 * 36524;
          n4 = r100 div 1461; r4 = r100 mod 1461;
          n1 = min 3 (r4 div 365); doy = r4 - n1 * 365;
          yM = 400 * n400 + 100 * n100 + 4 * n4 + n1;
          mp = (5 * doy + 2) div 153;
          d = doy - (153 * mp + 2) div 5 + 1;
          m = (if mp < 10 then mp + 3 else mp - 9)
      in (if m \<le> 2 then yM + 1 else yM, m, d))"

definition daysFromCivil :: "int \<Rightarrow> int \<Rightarrow> int \<Rightarrow> int" where
  "daysFromCivil y m d =
     (let y' = (if m \<le> 2 then y - 1 else y);
          era = y' div 400; yoe = y' mod 400;
          mp = (m + 9) mod 12;
          doy = (153 * mp + 2) div 5 + d - 1;
          doe = yoe * 365 + yoe div 4 - yoe div 100 + doy
      in era * 146097 + doe - 719468)"

definition getFullYear :: "int \<Rightarrow> int" where
  "getFullYear t = (case civilFromDays (t div msPerDay) of (y, m, d) \<Rightarrow> y)"

definition getMonth :: "int \<Rightarrow> int" where
  "getMonth t = (case civilFromDays (t div msPerDay) of (y, m, d) \<Rightarrow> m - 1)"

text \<open>\<open>Date.UTC(year, monthIndex, day)\<close>, for writing test dates.\<close>

definition Date_UTC :: "int \<Rightarrow> int \<Rightarrow> int \<Rightarrow> int" where
  "Date_UTC y monthIndex d = daysFromCivil y (monthIndex + 1) d * msPerDay"

subsection \<open>Objects as dictionaries\<close>

text \<open>
  \<open>obj[k] = v\<close> is \<^const>\<open>AList.update\<close>: an existing key keeps its place, a new key
  goes last. \<open>Object.keys\<close> and \<open>Object.entries\<close> list the keys that are array indices
  (canonical numerals below \<open>2^32 - 1\<close>) first, in numeric order, then the others in
  insertion order.
\<close>

definition isDigit :: "char \<Rightarrow> bool" where
  "isDigit c = (CHR ''0'' \<le> c \<and> c \<le> CHR ''9'')"

definition readNat :: "string \<Rightarrow> int" where
  "readNat s = foldl (\<lambda>n c. 10 * n + (of_char c - 48)) 0 s"

definition isArrayIndex :: "string \<Rightarrow> bool" where
  "isArrayIndex k =
     (k \<noteq> [] \<and> list_all isDigit k \<and> (k = ''0'' \<or> hd k \<noteq> CHR ''0'') \<and>
      length k \<le> 10 \<and> readNat k < 4294967295)"

definition Object_entries :: "(string \<times> 'v) list \<Rightarrow> (string \<times> 'v) list" where
  "Object_entries obj =
     sort_key (\<lambda>(k, v). readNat k) (filter (\<lambda>(k, v). isArrayIndex k) obj) @
     filter (\<lambda>(k, v). \<not> isArrayIndex k) obj"

definition Object_keys :: "(string \<times> 'v) list \<Rightarrow> string list" where
  "Object_keys obj = map fst (Object_entries obj)"

section \<open>Data model (shared/schema)\<close>

record CategoryRule =
  keywords' :: "string list"
  category :: string

datatype InsightType = SUBSCRIPTION_OVERLAP | HIGH_YIELD_SAVINGS | SPENDING_ALERT

record InsertInsight =
  title :: string
  description :: string
  savingsAmount :: int
  type :: InsightType
  actionLink :: string

text \<open>The entries of \<open>recurringItems\<close> and the result rows of \<open>findRecurringTransactions\<close>.\<close>

record RecurringData =
  dates :: "int list"
  amounts :: "rat list"
  category :: string

record Recurring =
  merchant :: string
  category :: string
  averageAmount :: rat
  frequency :: string

text \<open>Of an account the generator reads the type and the balance only.\<close>

record Account =
  type :: string
  balance :: rat

text \<open>
  The \<open>amount\<close> field holds the value of \<open>Number(transaction.amount)\<close>, the \<open>date\<close>
  field the time value of \<open>new Date(transaction.date)\<close>.
\<close>

record InsertTransaction =
  accountId :: int
  date :: int
  description :: string
  amount :: rat
  category :: string
  merchant :: string

record Transaction = InsertTransaction +
  id' :: int

section \<open>Category classifier (categorize.ts)\<close>

definition categoryRules :: "CategoryRule list" where
  "categoryRules = [
    \<lparr>keywords' = [''rent'', ''mortgage'', ''apartment'', ''home'', ''property'', ''loan'', ''house''],
     CategoryRule.category = ''Housing''\<rparr>,
    \<lparr>keywords' = [''market'', ''grocery'', ''supermarket'', ''food'', ''restaurant'', ''dining'',
       ''cafe'', ''coffee'', ''breakfast'', ''lunch'', ''dinner'', ''meal'', ''doordash'',
       ''uber eats'', ''grubhub'', ''pizza'', ''takeout''],
     CategoryRule.category = ''Food''\<rparr>,
    \<lparr>keywords' = [''gas'', ''fuel'', ''uber'', ''lyft'', ''taxi'', ''car'', ''auto'', ''vehicle'',
       ''maintenance'', ''repair'', ''oil'', ''tire'', ''parking'', ''transport'', ''transit'',
       ''bus'', ''train'', ''subway'', ''metro''],
     CategoryRule.category = ''Transportation''\<rparr>,
    \<lparr>keywords' = [''amazon'', ''walmart'', ''target'', ''costco'', ''shop'', ''store'', ''retail'',
       ''mall'', ''outlet'', ''purchase'', ''buy'', ''clothes'', ''clothing'', ''apparel'',
       ''shoes'', ''accessory'', ''electronics'', ''appliance'', ''hardware''],
     CategoryRule.category = ''Shopping''\<rparr>,
    \<lparr>keywords' = [''electric'', ''electricity'', ''gas'', ''water'', ''sewer'', ''trash'',
       ''internet'', ''cable'', ''phone'', ''mobile'', ''cellular'', ''utility'', ''bill'',
       ''service''],
     CategoryRule.category = ''Utilities''\<rparr>,
    \<lparr>keywords' = [''doctor'', ''hospital'', ''medical'', ''health'', ''healthcare'', ''dental'',
       ''vision'', ''pharmacy'', ''prescription'', ''medicine'', ''clinic'', ''emergency'',
       ''insurance'', ''fitness'', ''gym'', ''wellness''],
     CategoryRule.category = ''Healthcare''\<rparr>,
    \<lparr>keywords' = [''movie'', ''theatre'', ''theater'', ''cinema'', ''concert'', ''show'',
       ''entertainment'', ''music'', ''spotify'', ''netflix'', ''hulu'', ''disney'', ''streaming'',
       ''subscription'', ''game'', ''hobby'', ''fun'', ''leisure''],
     CategoryRule.category = ''Entertainment''\<rparr>,
    \<lparr>keywords' = [''school'', ''college'', ''university'', ''tuition'', ''education'', ''course'',
       ''class'', ''degree'', ''student'', ''book'', ''textbook'', ''study'', ''learning'',
       ''training'', ''workshop''],
     CategoryRule.category = ''Education''\<rparr>,
    \<lparr>keywords' = [''hotel'', ''motel'', ''lodging'', ''airbnb'', ''vacation'', ''holiday'', ''trip'',
       ''travel'', ''flight'', ''airline'', ''airplane'', ''booking'', ''reservation'', ''ticket'',
       ''tour'', ''cruise'', ''resort''],
     CategoryRule.category = ''Travel''\<rparr>,
    \<lparr>keywords' = [''salary'', ''payroll'', ''deposit'', ''income'', ''revenue'', ''wage'',
       ''payment'', ''compensation'', ''bonus'', ''commission'', ''dividend'', ''interest'',
       ''refund'', ''return'', ''reimbursement''],
     CategoryRule.category = ''Income''\<rparr>
  ]"

text \<open>
  The \<open>for (const rule of categoryRules)\<close> loop with its early \<open>return\<close>; falling out of
  the loop returns \<open>"Other"\<close>.
\<close>

fun matchRules :: "CategoryRule list \<Rightarrow> string \<Rightarrow> string" where
  "matchRules [] searchText = ''Other''"
| "matchRules (rule # rules) searchText =
     (if list_ex (\<lambda>keyword. str_includes searchText (toLowerCase keyword)) (keywords' rule)
      then CategoryRule.category rule
      else matchRules rules searchText)"

definition categorizeTransaction :: "'a InsertTransaction_scheme \<Rightarrow> string" where
  "categorizeTransaction transaction =
     (let searchText = toLowerCase (description transaction @ '' '' @ merchant transaction)
      in if amount transaction > 0 then ''Income''
         else matchRules categoryRules searchText)"

section \<open>Insight generator (insights.ts)\<close>

subsection \<open>Subscription overlap\<close>

definition subscriptionKeywords :: "string list" where
  "subscriptionKeywords =
     [''netflix'', ''hulu'', ''disney+'', ''hbo'', ''spotify'', ''apple music'',
      ''youtube'', ''amazon prime'', ''paramount'', ''peacock'']"

text \<open>\<open>Set.add\<close>: a set keeps its members in the order of their first insertion.\<close>

definition Set_add :: "'a \<Rightarrow> 'a list \<Rightarrow> 'a list" where
  "Set_add x xs = (if x \<in> set xs then xs else xs @ [x])"

text \<open>
  The body of \<open>transactions.forEach\<close>; the state is the pair of \<open>streamingServices\<close>
  and \<open>subscriptionTransactions\<close>. The inner \<open>for\<close> loop stops at the first keyword
  the text includes.
\<close>

definition scanSubscription ::
  "'a InsertTransaction_scheme \<Rightarrow> string list \<times> (string \<times> rat) list \<Rightarrow>
   string list \<times> (string \<times> rat) list" where
  "scanSubscription transaction st =
     (case st of (streamingServices, subscriptionTransactions) \<Rightarrow>
        let description' = toLowerCase (description transaction);
            merchant' = toLowerCase (merchant transaction);
            str = description' @ '' '' @ merchant'
        in (case find (\<lambda>keyword. str_includes str keyword) subscriptionKeywords of
              Some keyword \<Rightarrow>
                (Set_add keyword streamingServices,
                 subscriptionTransactions @ [(keyword, \<bar>amount transaction\<bar>)])
            | None \<Rightarrow> (streamingServices, subscriptionTransactions)))"

definition findSubscriptionOverlaps :: "'a InsertTransaction_scheme list \<Rightarrow> InsertInsight list" where
  "findSubscriptionOverlaps transactions =
     (case fold scanSubscription transactions ([], []) of
        (streamingServices, subscriptionTransactions) \<Rightarrow>
          if length streamingServices \<ge> 3 then
            let services = take 3 streamingServices;
                totalAmount = foldl (\<lambda>sum sub. sum + snd sub) 0 subscriptionTransactions;
                monthlySavings = Math_round (totalAmount * (4 / 10))
            in [\<lparr>title = ''Subscription Overlap Detected'',
                 InsertInsight.description =
                   ''You have multiple streaming subscriptions ('' @ join '', '' services @
                   ''). Consider consolidating to save $'' @ showInt monthlySavings @ ''/month.'',
                 savingsAmount = monthlySavings,
                 InsertInsight.type = SUBSCRIPTION_OVERLAP,
                 actionLink = ''/insights/subscriptions''\<rparr>]
          else [])"

subsection \<open>High-yield savings\<close>

definition findHighYieldSavingsOpportunities :: "Account list \<Rightarrow> InsertInsight list" where
  "findHighYieldSavingsOpportunities accounts =
     (let savingsAccounts =
            filter (\<lambda>account. toLowerCase (type account) = ''savings'' \<and> balance account > 1000)
              accounts
      in if length savingsAccounts > 0 then
           let totalSavings = foldl (\<lambda>sum account. sum + balance account) 0 savingsAccounts;
               currentEstimatedRate = 1 / 100;
               highYieldRate = 35 / 1000;
               currentYearlyInterest = totalSavings * currentEstimatedRate;
               potentialYearlyInterest = totalSavings * highYieldRate;
               additionalInterest = Math_round (potentialYearlyInterest - currentYearlyInterest)
           in if additionalInterest > 20 then
                [\<lparr>title = ''High-Yield Savings Opportunity'',
                  InsertInsight.description =
                    ''Moving your savings to an online bank could earn you an extra $'' @
                    showInt additionalInterest @ ''/year in interest.'',
                  savingsAmount = additionalInterest,
                  InsertInsight.type = HIGH_YIELD_SAVINGS,
                  actionLink = ''/insights/savings''\<rparr>]
              else []
         else [])"

subsection \<open>Spending increases\<close>

type_synonym spending = "(string \<times> (string \<times> rat) list) list"

text \<open>
  The body of the first \<open>forEach\<close>: the transaction's absolute amount is added to the
  bucket of its month key and category, either created on first use.
\<close>

definition monthYearKey :: "int \<Rightarrow> string" where
  "monthYearKey d = showInt (getFullYear d) @ ''-'' @ showInt (getMonth d)"

definition addSpending :: "'a InsertTransaction_scheme \<Rightarrow> spending \<Rightarrow> spending" where
  "addSpending transaction spendingByMonthAndCategory =
     (if amount transaction \<ge> 0 then spendingByMonthAndCategory
      else
        let monthYear = monthYearKey (date transaction);
            category' = category transaction;
            monthData = (case map_of spendingByMonthAndCategory monthYear of
                           None \<Rightarrow> [] | Some data \<Rightarrow> data);
            current = (case map_of monthData category' of None \<Rightarrow> 0 | Some v \<Rightarrow> v)
        in AList.update monthYear
             (AList.update category' (current + \<bar>amount transaction\<bar>) monthData)
             spendingByMonthAndCategory)"

text \<open>
  The body of \<open>Object.entries(currentMonthData).forEach\<close> for one category: the
  insight it pushes, if any.
\<close>

definition spendingAlert :: "string \<Rightarrow> rat \<Rightarrow> rat \<Rightarrow> InsertInsight list" where
  "spendingAlert category' amount' previousAmount =
     (if previousAmount > 50 then
        let increasePercent = Math_round (((amount' - previousAmount) / previousAmount) * 100);
            absoluteIncrease = Math_round (amount' - previousAmount)
        in if increasePercent \<ge> 20 \<and> absoluteIncrease \<ge> 50 then
             if category' \<noteq> ''Income'' \<and> category' \<noteq> ''Other'' then
               let potentialSavings = Math_round (of_int absoluteIncrease * (7 / 10))
               in [\<lparr>title = category' @ '' Spending Increased'',
                    InsertInsight.description =
                      ''Your '' @ toLowerCase category' @ '' spending is up '' @
                      showInt increasePercent @
                      ''% from last month. Setting a budget could save you $'' @
                      showInt potentialSavings @ ''/month.'',
                    savingsAmount = potentialSavings,
                    InsertInsight.type = SPENDING_ALERT,
                    actionLink = ''/budgets/new''\<rparr>]
             else []
           else []
      else [])"

text \<open>
  The months the function compares: the last and the last but one of the sorted month
  keys. \<open>Array.prototype.sort\<close> without a comparator orders strings by their code
  units, which is the lexicographic order of \<^typ>\<open>string\<close>.
\<close>

definition comparedMonths :: "spending \<Rightarrow> (string \<times> string) option" where
  "comparedMonths spendingByMonthAndCategory =
     (let months = sort (Object_keys spendingByMonthAndCategory)
      in if length months < 2 then None
         else Some (months ! (length months - 1), months ! (length months - 2)))"

text \<open>
  The second \<open>forEach\<close>, over \<open>Object.entries(currentMonthData)\<close>: the array
  \<open>insights\<close> before it is sorted and cut. \<open>previousMonthData[category] || 0\<close> is the
  previous month's amount, or 0 when the category has none.
\<close>

definition collectAlerts ::
  "(string \<times> rat) list \<Rightarrow> (string \<times> rat) list \<Rightarrow> InsertInsight list" where
  "collectAlerts currentMonthData previousMonthData =
     concat (map (\<lambda>(category', amount').
                    let previousAmount = (case map_of previousMonthData category' of
                                            None \<Rightarrow> 0 | Some v \<Rightarrow> v)
                    in spendingAlert category' amount' previousAmount)
               (Object_entries currentMonthData))"

text \<open>
  \<open>insights.sort((a, b) => b.savingsAmount - a.savingsAmount).slice(0, 3)\<close>; the sort
  is stable.
\<close>

definition findSpendingIncreases :: "'a InsertTransaction_scheme list \<Rightarrow> InsertInsight list" where
  "findSpendingIncreases transactions =
     (let spendingByMonthAndCategory = fold addSpending transactions []
      in case comparedMonths spendingByMonthAndCategory of
           None \<Rightarrow> []
         | Some (currentMonth, previousMonth) \<Rightarrow>
             let currentMonthData = (case map_of spendingByMonthAndCategory currentMonth of
                                       None \<Rightarrow> [] | Some data \<Rightarrow> data);
                 previousMonthData = (case map_of spendingByMonthAndCategory previousMonth of
                                        None \<Rightarrow> [] | Some data \<Rightarrow> data);
                 insights = collectAlerts currentMonthData previousMonthData
             in take 3 (sort_key (\<lambda>insight. - savingsAmount insight) insights))"

subsection \<open>All three analyses\<close>

definition generateInsights ::
  "'a InsertTransaction_scheme list \<Rightarrow> Account list \<Rightarrow> InsertInsight list" where
  "generateInsights transactions accounts =
     (if length transactions = 0 \<or> length accounts = 0 then []
      else
        let subscriptionInsights = findSubscriptionOverlaps transactions;
            savingsInsights = findHighYieldSavingsOpportunities accounts;
            spendingAlerts = findSpendingIncreases transactions
        in subscriptionInsights @ savingsInsights @ spendingAlerts)"

section \<open>Recurring-charge detector (insights.ts)\<close>

type_synonym recurringItems = "(string \<times> RecurringData) list"

text \<open>The body of the first \<open>forEach\<close>.\<close>

definition addRecurring :: "'a InsertTransaction_scheme \<Rightarrow> recurringItems \<Rightarrow> recurringItems" where
  "addRecurring transaction recurringItems =
     (if amount transaction \<ge> 0 then recurringItems
      else
        let merchant' = toLowerCase (merchant transaction);
            amount' = \<bar>amount transaction\<bar>;
            date' = date transaction
        in if amount' < 5 then recurringItems
           else
             let data = (case map_of recurringItems merchant' of
                           None \<Rightarrow> \<lparr>dates = [], amounts = [],
                                    RecurringData.category = category transaction\<rparr>
                         | Some data \<Rightarrow> data)
             in AList.update merchant'
                  (data\<lparr>dates := dates data @ [date'], amounts := amounts data @ [amount']\<rparr>)
                  recurringItems)"

text \<open>The \<open>for\<close> loop that adds up the rounded day differences of neighbouring dates.\<close>

fun totalDaysBetween :: "int list \<Rightarrow> int" where
  "totalDaysBetween (d0 # d1 # ds) =
     Math_round (of_int (d1 - d0) / of_int msPerDay) + totalDaysBetween (d1 # ds)"
| "totalDaysBetween ds = 0"

definition capitalize :: "string \<Rightarrow> string" where
  "capitalize s = (case s of [] \<Rightarrow> [] | c # cs \<Rightarrow> toUpperChar c # cs)"

text \<open>The body of \<open>Object.entries(recurringItems).forEach\<close>: the row it pushes, if any.\<close>

definition analyzeMerchant :: "string \<Rightarrow> RecurringData \<Rightarrow> Recurring list" where
  "analyzeMerchant merchant' data =
     (if length (dates data) < 2 then []
      else
        let sortedDates = sort (dates data);
            avgDaysBetween = (of_int (totalDaysBetween sortedDates) /
                                of_nat (length sortedDates - 1) :: rat);
            frequency' =
              (if avgDaysBetween \<ge> 25 \<and> avgDaysBetween \<le> 35 then Some ''monthly''
               else if avgDaysBetween \<ge> 6 \<and> avgDaysBetween \<le> 8 then Some ''weekly''
               else if avgDaysBetween \<ge> 13 \<and> avgDaysBetween \<le> 16 then Some ''bi-weekly''
               else if avgDaysBetween \<ge> 85 \<and> avgDaysBetween \<le> 95 then Some ''quarterly''
               else None)
        in case frequency' of
             None \<Rightarrow> []
           | Some f \<Rightarrow>
               let avgAmount = foldl (\<lambda>sum a. sum + a) 0 (amounts data) /
                                 of_nat (length (amounts data))
               in [\<lparr>Recurring.merchant = capitalize merchant',
                    Recurring.category = RecurringData.category data,
                    averageAmount = of_int (Math_round (avgAmount * 100)) / 100,
                    frequency = f\<rparr>])"

text \<open>The parameter \<open>timeframeMonths\<close> (default 3) is declared and never read.\<close>

definition findRecurringTransactions ::
  "'a InsertTransaction_scheme list \<Rightarrow> rat \<Rightarrow> Recurring list" where
  "findRecurringTransactions transactions timeframeMonths =
     (let recurringItems = fold addRecurring transactions [];
          recurring = concat (map (\<lambda>(merchant', data). analyzeMerchant merchant' data)
                        (Object_entries recurringItems))
      in sort_key (\<lambda>r. - averageAmount r) recurring)"

section \<open>CSV transaction parser (csv-parser.ts)\<close>

subsection \<open>Platform: splitting, trimming, numbers, dates\<close>

definition isSpace :: "char \<Rightarrow> bool" where
  "isSpace c = (c = CHR 0x20 \<or> c = CHR 0x09 \<or> c = CHR 0x0A \<or> c = CHR 0x0B \<or>
                c = CHR 0x0C \<or> c = CHR 0x0D)"



text \<open>\<open>csvData.split(/\r?\n/)\<close>: a line ends at a line feed, which takes a carriage
  return right before it along.\<close>

fun splitLines :: "string \<Rightarrow> string list" where
  "splitLines [] = [[]]"
| "splitLines [c] = (if c = CHR 0x0A then [[], []] else [[c]])"
| "splitLines (c # d # cs) =
     (if c = CHR 0x0A then [] # splitLines (d # cs)
      else if c = CHR 0x0D \<and> d = CHR 0x0A then [] # splitLines cs
      else (case splitLines (d # cs) of
              l # ls \<Rightarrow> (c # l) # ls
            | [] \<Rightarrow> [[c]]))"

text \<open>
  \<open>parseFloat\<close>: leading white space is skipped, then the longest prefix that is a
  decimal literal (sign, digits, fraction, exponent) is read; \<open>None\<close> is \<open>NaN\<close>. The
  literal \<open>Infinity\<close>, which \<open>parseFloat\<close> reads as an infinite number, has no value in
  this model and is read as \<open>NaN\<close>.
\<close>

definition parseExponent :: "string \<Rightarrow> int" where
  "parseExponent s =
     (case s of
        e # rest \<Rightarrow>
          if e = CHR ''e'' \<or> e = CHR ''E'' then
            (case rest of
               sign # digits \<Rightarrow>
                 if sign = CHR ''-'' \<and> takeWhile isDigit digits \<noteq> []
                 then - readNat (takeWhile isDigit digits)
                 else if sign = CHR ''+'' \<and> takeWhile isDigit digits \<noteq> []
                 then readNat (takeWhile isDigit digits)
                 else readNat (takeWhile isDigit rest)
             | [] \<Rightarrow> 0)
          else 0
      | [] \<Rightarrow> 0)"

definition scale10 :: "rat \<Rightarrow> int \<Rightarrow> rat" where
  "scale10 x e = (if e \<ge> 0 then x * 10 ^ nat e else x / 10 ^ nat (- e))"

definition parseUnsigned :: "string \<Rightarrow> rat option" where
  "parseUnsigned s =
     (let intPart = takeWhile isDigit s;
          afterInt = dropWhile isDigit s;
          fracPart = (case afterInt of
                        dot # rest \<Rightarrow> if dot = CHR ''.'' then takeWhile isDigit rest else []
                      | [] \<Rightarrow> []);
          afterFrac = (case afterInt of
                         dot # rest \<Rightarrow> if dot = CHR ''.'' then dropWhile isDigit rest
                                        else afterInt
                       | [] \<Rightarrow> [])
      in if intPart = [] \<and> fracPart = [] then None
         else Some (scale10 (of_int (readNat (intPart @ fracPart)) / 10 ^ length fracPart)
                      (parseExponent afterFrac)))"

definition parseFloat :: "string \<Rightarrow> rat option" where
  "parseFloat s =
     (case dropWhile isSpace s of
        c # rest \<Rightarrow>
          if c = CHR ''-'' then map_option uminus (parseUnsigned rest)
          else if c = CHR ''+'' then parseUnsigned rest
          else parseUnsigned (c # rest)
      | [] \<Rightarrow> None)"

text \<open>\<open>x.toFixed(2)\<close>: the nearest multiple of 0.01, a tie going away from zero.\<close>

definition padLeft :: "nat \<Rightarrow> string \<Rightarrow> string" where
  "padLeft n s = replicate (n - length s) CHR ''0'' @ s"

definition toFixed2 :: "rat \<Rightarrow> string" where
  "toFixed2 x =
     (let n = \<lfloor>\<bar>x\<bar> * 100 + 1 / 2\<rfloor>;
          m = padLeft 3 (showNat n);
          k = length m
      in (if x < 0 then ''-'' else '''') @ take (k - 2) m @ ''.'' @ drop (k - 2) m)"

text \<open>
  \<open>new Date(t).toISOString().split('T')[0]\<close>: the UTC calendar date, the year in four
  digits from 0 to 9999 and in six digits with a sign otherwise.
\<close>

definition toISODate :: "int \<Rightarrow> string" where
  "toISODate t =
     (case civilFromDays (t div msPerDay) of
        (y, m, d) \<Rightarrow>
          (if 0 \<le> y \<and> y \<le> 9999 then padLeft 4 (showNat y)
           else (if y < 0 then ''-'' else ''+'') @ padLeft 6 (showNat \<bar>y\<bar>)) @
          ''-'' @ padLeft 2 (showNat m) @ ''-'' @ padLeft 2 (showNat d))"



subsection \<open>The parser\<close>

record ParsedCsvResult =
  transactions :: "InsertTransaction list"
  errors :: "string list"










subsection \<open>The serializer\<close>

definition escapeQuotes :: "string \<Rightarrow> string" where
  "escapeQuotes s = concat (map (\<lambda>c. if c = CHR 0x22 then [c, c] else [c]) s)"

definition csvRow :: "'a InsertTransaction_scheme \<Rightarrow> string" where
  "csvRow tx =
     (let date' = toISODate (date tx);
          description' = [CHR 0x22] @ escapeQuotes (description tx) @ [CHR 0x22];
          amount' = toFixed2 (amount tx);
          category' = (if category tx = [] then ''Other'' else category tx);
          merchant' = [CHR 0x22] @ escapeQuotes (merchant tx) @ [CHR 0x22]
      in date' @ '','' @ description' @ '','' @ amount' @ '','' @ category' @ '','' @ merchant' @
         [CHR 0x0A])"

definition transactionsToCSV :: "'a InsertTransaction_scheme list \<Rightarrow> string" where
  "transactionsToCSV txs =
     ''Date,Description,Amount,Category,Merchant'' @ [CHR 0x0A] @ concat (map csvRow txs)"

section \<open>Properties of the classifier\<close>

lemma str_includes_sublist: "str_includes s keyword \<longleftrightarrow> sublist keyword s"
  by (induction s) (auto simp: sublist_Cons_right)

lemma matchRules_find:
  "matchRules rules s =
     (case find (\<lambda>rule. \<exists>keyword \<in> set (keywords' rule). sublist (toLowerCase keyword) s) rules of
        Some rule \<Rightarrow> CategoryRule.category rule
      | None \<Rightarrow> ''Other'')"
  by (induction rules) (auto simp: list_ex_iff str_includes_sublist)

text \<open>
  C5. \<open>categorizeTransaction\<close> is a function of the transaction alone. When the amount is
  positive it answers \<open>"Income"\<close> whatever the description and merchant hold. Otherwise
  it answers the category of the first rule of \<open>categoryRules\<close>, in table order, one of
  whose keywords is a substring of the lower-cased text \<open>description merchant\<close>, and
  \<open>"Other"\<close> when no rule has such a keyword.
\<close>

theorem categorizeTransaction_first_match:
  "(amount transaction > 0 \<longrightarrow> categorizeTransaction transaction = ''Income'') \<and>
   (\<not> amount transaction > 0 \<longrightarrow>
      categorizeTransaction transaction =
        (case find (\<lambda>rule. \<exists>keyword \<in> set (keywords' rule).
                      sublist (toLowerCase keyword)
                        (toLowerCase (description transaction @ '' '' @ merchant transaction)))
                   categoryRules of
           Some rule \<Rightarrow> CategoryRule.category rule
         | None \<Rightarrow> ''Other''))"
  by (simp add: categorizeTransaction_def matchRules_find)

theorem categorizeTransaction_first_match_witness:
  "0 < amount \<lparr>accountId = 1, date = 0, description = ''Rent refund'', amount = 50,
                 category = '''', merchant = ''Landlord''\<rparr> \<and>
   categorizeTransaction \<lparr>accountId = 1, date = 0, description = ''Rent refund'', amount = 50,
                 category = '''', merchant = ''Landlord''\<rparr> = ''Income'' \<and>
   \<not> 0 < amount \<lparr>accountId = 1, date = 0, description = ''Netflix Monthly'',
                   amount = - (1599 / 100), category = '''', merchant = ''Netflix Monthly''\<rparr> \<and>
   categorizeTransaction \<lparr>accountId = 1, date = 0, description = ''Netflix Monthly'',
                   amount = - (1599 / 100), category = '''', merchant = ''Netflix Monthly''\<rparr> =
     ''Entertainment''"
proof -
  let ?income = "\<lparr>accountId = 1, date = 0, description = ''Rent refund'', amount = 50,
                 category = '''', merchant = ''Landlord''\<rparr>"
  let ?netflix = "\<lparr>accountId = 1, date = 0, description = ''Netflix Monthly'',
                   amount = - (1599 / 100), category = '''', merchant = ''Netflix Monthly''\<rparr>"
  have found: "find (\<lambda>rule. list_ex (\<lambda>keyword. str_includes
                   (toLowerCase (''Netflix Monthly'' @ '' '' @ ''Netflix Monthly''))
                   (toLowerCase keyword)) (keywords' rule)) categoryRules =
               Some (categoryRules ! 6)"
    by code_simp
  have entertainment: "CategoryRule.category (categoryRules ! 6) = ''Entertainment''"
    by code_simp
  from categorizeTransaction_first_match [of ?income]
       categorizeTransaction_first_match [of ?netflix] found entertainment
  show ?thesis
    by (simp add: list_ex_iff str_includes_sublist)
qed


section \<open>Properties of the insight generator\<close>

subsection \<open>Subscription overlap\<close>











subsection \<open>Object entries\<close>

lemma set_Object_entries [simp]: "set (Object_entries obj) = set obj"
  by (auto simp: Object_entries_def)

lemma distinct_Object_entries:
  "distinct (map fst obj) \<Longrightarrow> distinct (map fst (Object_entries obj))"
proof -
  assume d: "distinct (map fst obj)"
  then have "distinct obj" and inj: "inj_on fst (set obj)"
    by (simp_all add: distinct_map)
  then have "distinct (Object_entries obj)"
    by (auto simp: Object_entries_def)
  with inj show ?thesis
    by (simp add: distinct_map)
qed

lemma map_of_Object_entries:
  "distinct (map fst obj) \<Longrightarrow> map_of (Object_entries obj) = map_of obj"
  by (rule map_of_inject_set [THEN iffD2])
     (simp_all add: distinct_Object_entries)

subsection \<open>Spending increases\<close>
























text \<open>
  C1. The month keys are \<open>year-monthIndex\<close> with the index 0 to 11 unpadded, and they are
  sorted as strings, so \<open>"2024-10"\<close> (November) sorts before \<open>"2024-9"\<close> (October). With
  160 spent in October 2024 and 100 in November 2024 the function takes October as the
  current month and November as the previous one, and reports a 60 percent increase.
\<close>

theorem findSpendingIncreases_sorts_month_keys_as_strings:
  "getFullYear (Date_UTC 2024 9 15) = 2024 \<and> getMonth (Date_UTC 2024 9 15) = 9 \<and>
   getFullYear (Date_UTC 2024 10 15) = 2024 \<and> getMonth (Date_UTC 2024 10 15) = 10 \<and>
   comparedMonths (fold addSpending
     [\<lparr>accountId = 1, date = Date_UTC 2024 9 15, description = ''Dinner'', amount = - 160,
        category = ''Dining'', merchant = ''Bistro''\<rparr>,
      \<lparr>accountId = 1, date = Date_UTC 2024 10 15, description = ''Dinner'', amount = - 100,
        category = ''Dining'', merchant = ''Bistro''\<rparr>] []) = Some (''2024-9'', ''2024-10'') \<and>
   findSpendingIncreases
     [\<lparr>accountId = 1, date = Date_UTC 2024 9 15, description = ''Dinner'', amount = - 160,
        category = ''Dining'', merchant = ''Bistro''\<rparr>,
      \<lparr>accountId = 1, date = Date_UTC 2024 10 15, description = ''Dinner'', amount = - 100,
        category = ''Dining'', merchant = ''Bistro''\<rparr>] =
     [\<lparr>title = ''Dining Spending Increased'',
       InsertInsight.description =
         ''Your dining spending is up 60% from last month. Setting a budget could save you $42/month.'',
       savingsAmount = 42, InsertInsight.type = SPENDING_ALERT,
       actionLink = ''/budgets/new''\<rparr>]"
  by code_simp
subsection \<open>The result of all three analyses\<close>

lemma spendingAlert_cases:
  "spendingAlert c a p = [] \<or>
   (\<exists>i. spendingAlert c a p = [i] \<and> InsertInsight.type i = SPENDING_ALERT)"
  by (simp add: spendingAlert_def Let_def)

lemma spendingAlert_type:
  "i \<in> set (spendingAlert c a p) \<Longrightarrow> InsertInsight.type i = SPENDING_ALERT"
  using spendingAlert_cases [of c a p] by auto

lemma collectAlerts_type:
  "i \<in> set (collectAlerts cur prev) \<Longrightarrow> InsertInsight.type i = SPENDING_ALERT"
  by (auto simp: collectAlerts_def Let_def dest: spendingAlert_type)

lemma findSpendingIncreases_shape:
  "findSpendingIncreases ts = [] \<or>
   (\<exists>cur prev. findSpendingIncreases ts =
      take 3 (sort_key (\<lambda>insight. - savingsAmount insight) (collectAlerts cur prev)))"
  by (cases "comparedMonths (fold addSpending ts [])")
     (auto simp: findSpendingIncreases_def Let_def)

lemma findSpendingIncreases_type:
  "i \<in> set (findSpendingIncreases ts) \<Longrightarrow> InsertInsight.type i = SPENDING_ALERT"
  using findSpendingIncreases_shape [of ts]
  by (auto dest!: in_set_takeD simp: collectAlerts_type)

lemma findSpendingIncreases_length: "length (findSpendingIncreases ts) \<le> 3"
  using findSpendingIncreases_shape [of ts] by auto

lemma map_const_replicate:
  "(\<And>x. x \<in> set xs \<Longrightarrow> f x = c) \<Longrightarrow> map f xs = replicate (length xs) c"
  by (induction xs) auto

lemma findSubscriptionOverlaps_types:
  "\<exists>a\<le>1. map InsertInsight.type (findSubscriptionOverlaps ts) =
           replicate a SUBSCRIPTION_OVERLAP"
proof (cases "findSubscriptionOverlaps ts = []")
  case True
  then show ?thesis by (intro exI [of _ 0]) simp
next
  case False
  then have "map InsertInsight.type (findSubscriptionOverlaps ts) =
             replicate 1 SUBSCRIPTION_OVERLAP"
    by (auto simp: findSubscriptionOverlaps_def Let_def split: prod.splits if_splits)
  then show ?thesis by (intro exI [of _ 1]) simp
qed

lemma findHighYieldSavingsOpportunities_types:
  "\<exists>b\<le>1. map InsertInsight.type (findHighYieldSavingsOpportunities accs) =
           replicate b HIGH_YIELD_SAVINGS"
proof (cases "findHighYieldSavingsOpportunities accs = []")
  case True
  then show ?thesis by (intro exI [of _ 0]) simp
next
  case False
  then have "map InsertInsight.type (findHighYieldSavingsOpportunities accs) =
             replicate 1 HIGH_YIELD_SAVINGS"
    by (auto simp: findHighYieldSavingsOpportunities_def Let_def split: if_splits)
  then show ?thesis by (intro exI [of _ 1]) simp
qed

text \<open>
  C10. The types of the insights \<open>generateInsights\<close> returns are at most one
  \<open>subscription\<close>, then at most one \<open>high-yield\<close>, then at most three
  \<open>spending-alert\<close>, in this order; so it returns at most five insights.
\<close>

theorem generateInsights_at_most_five:
  "\<exists>a b c. a \<le> 1 \<and> b \<le> 1 \<and> c \<le> 3 \<and>
     map InsertInsight.type (generateInsights txs accounts) =
       replicate a SUBSCRIPTION_OVERLAP @ replicate b HIGH_YIELD_SAVINGS @
       replicate c SPENDING_ALERT \<and>
     length (generateInsights txs accounts) \<le> 5"
proof (cases "length txs = 0 \<or> length accounts = 0")
  case True
  then have "generateInsights txs accounts = []"
    by (simp add: generateInsights_def)
  then show ?thesis
    by (intro exI [of _ 0]) simp
next
  case False
  obtain a where a: "a \<le> 1"
      "map InsertInsight.type (findSubscriptionOverlaps txs) =
         replicate a SUBSCRIPTION_OVERLAP"
    using findSubscriptionOverlaps_types by blast
  obtain b where b: "b \<le> 1"
      "map InsertInsight.type (findHighYieldSavingsOpportunities accounts) =
         replicate b HIGH_YIELD_SAVINGS"
    using findHighYieldSavingsOpportunities_types by blast
  let ?c = "length (findSpendingIncreases txs)"
  have c: "?c \<le> 3"
      "map InsertInsight.type (findSpendingIncreases txs) =
         replicate ?c SPENDING_ALERT"
    by (rule findSpendingIncreases_length)
       (rule map_const_replicate, rule findSpendingIncreases_type)
  have split: "generateInsights txs accounts =
      findSubscriptionOverlaps txs @ findHighYieldSavingsOpportunities accounts @
      findSpendingIncreases txs"
    using False by (simp add: generateInsights_def Let_def)
  have la: "length (findSubscriptionOverlaps txs) = a"
    using a(2) by (metis length_map length_replicate)
  have lb: "length (findHighYieldSavingsOpportunities accounts) = b"
    using b(2) by (metis length_map length_replicate)
  have "length (generateInsights txs accounts) \<le> 5"
    using a(1) b(1) c(1) la lb by (simp add: split)
  with a b c split show ?thesis
    by (intro exI [of _ a] exI [of _ b] exI [of _ ?c]) simp
qed


theorem generateInsights_at_most_five_witness:
  "map InsertInsight.type (generateInsights
     [\<lparr>accountId = 1, date = Date_UTC 2024 0 10, description = ''Netflix'', amount = - 15,
        category = ''Entertainment'', merchant = ''Netflix''\<rparr>,
      \<lparr>accountId = 1, date = Date_UTC 2024 0 11, description = ''Hulu'', amount = - 85,
        category = ''Entertainment'', merchant = ''Hulu''\<rparr>,
      \<lparr>accountId = 1, date = Date_UTC 2024 1 10, description = ''Spotify'', amount = - 160,
        category = ''Entertainment'', merchant = ''Spotify''\<rparr>]
     [\<lparr>type = ''Savings'', balance = 5000\<rparr>]) =
     [SUBSCRIPTION_OVERLAP, HIGH_YIELD_SAVINGS, SPENDING_ALERT] \<and>
   (\<exists>a b c. a \<le> 1 \<and> b \<le> 1 \<and> c \<le> 3 \<and>
      [SUBSCRIPTION_OVERLAP, HIGH_YIELD_SAVINGS, SPENDING_ALERT] =
        replicate a SUBSCRIPTION_OVERLAP @ replicate b HIGH_YIELD_SAVINGS @
        replicate c SPENDING_ALERT)"
proof -
  let ?ts = "[\<lparr>accountId = 1, date = Date_UTC 2024 0 10, description = ''Netflix'', amount = - 15,
        category = ''Entertainment'', merchant = ''Netflix''\<rparr>,
      \<lparr>accountId = 1, date = Date_UTC 2024 0 11, description = ''Hulu'', amount = - 85,
        category = ''Entertainment'', merchant = ''Hulu''\<rparr>,
      \<lparr>accountId = 1, date = Date_UTC 2024 1 10, description = ''Spotify'', amount = - 160,
        category = ''Entertainment'', merchant = ''Spotify''\<rparr>]"
  let ?accs = "[\<lparr>type = ''Savings'', balance = 5000\<rparr>]"
  have types: "map InsertInsight.type (generateInsights ?ts ?accs) =
      [SUBSCRIPTION_OVERLAP, HIGH_YIELD_SAVINGS, SPENDING_ALERT]"
    by code_simp
  from generateInsights_at_most_five [of ?ts ?accs] show ?thesis
    unfolding types by blast
qed

section \<open>Properties of the recurring-charge detector\<close>









subsection \<open>Capitalised names\<close>










subsection \<open>One merchant\<close>
















text \<open>
  C9. The result of \<open>findRecurringTransactions\<close> is the same for any two values of
  \<open>timeframeMonths\<close>: the function never reads the parameter.
\<close>

theorem findRecurringTransactions_ignores_timeframe:
  "findRecurringTransactions txs t1 = findRecurringTransactions txs t2"
  by (simp add: findRecurringTransactions_def)


section \<open>Properties of the CSV parser\<close>



lemma parseFloat_Nil [simp]: "parseFloat [] = None"
  by (simp add: parseFloat_def)












lemma splitLines_nonempty: "splitLines s \<noteq> []"
  by (induction s rule: splitLines.induct) (auto split: list.splits)















end
